theory Spec2Isabelle
  imports Main "HOL-Library.Sublist"
begin

section \<open>JavaScript string and array primitives used by the gates\<close>

text \<open>
  A JavaScript string is modelled as a \<open>string\<close> (a list of characters), an array of
  strings as a \<open>string list\<close>. Each primitive below follows the ECMAScript operation of the
  same name on the arguments the gates pass to it. The characters stand for the code
  units below 256; every character the gates test for (the dot, the space, the line feed,
  the operator tokens, the brackets) is one of them.
\<close>

datatype js_error = TypeError

text \<open>\<open>s.indexOf(pat)\<close>: the least position at which \<open>pat\<close> starts in \<open>s\<close>, or \<open>-1\<close>.\<close>

fun indexOfNat :: "'a list \<Rightarrow> 'a list \<Rightarrow> nat option" where
  "indexOfNat [] pat = (if pat = [] then Some 0 else None)"
| "indexOfNat (x # xs) pat =
     (if prefix pat (x # xs) then Some 0 else map_option Suc (indexOfNat xs pat))"

definition indexOf :: "'a list \<Rightarrow> 'a list \<Rightarrow> int" where
  "indexOf s pat = (case indexOfNat s pat of None \<Rightarrow> - 1 | Some i \<Rightarrow> int i)"

text \<open>\<open>s.includes(pat)\<close>.\<close>

definition includesStr :: "'a list \<Rightarrow> 'a list \<Rightarrow> bool" where
  "includesStr s pat = (indexOf s pat \<noteq> - 1)"

text \<open>
  \<open>s.slice(start, end)\<close>: a negative index counts from the end, both indices are clamped
  to the length, and an empty range gives the empty string.
\<close>

definition sliceIndex :: "nat \<Rightarrow> int \<Rightarrow> nat" where
  "sliceIndex len i = (if i < 0 then nat (max (int len + i) 0) else min (nat i) len)"

definition slice :: "int \<Rightarrow> int \<Rightarrow> 'a list \<Rightarrow> 'a list" where
  "slice start end' s =
     (let fromIdx = sliceIndex (length s) start; toIdx = sliceIndex (length s) end'
      in take (toIdx - fromIdx) (drop fromIdx s))"

text \<open>\<open>s.replaceAll(c, rep)\<close> for a pattern \<open>c\<close> of one character.\<close>

definition replaceAll :: "'a \<Rightarrow> 'a list \<Rightarrow> 'a list \<Rightarrow> 'a list" where
  "replaceAll c rep s = concat (map (\<lambda>x. if x = c then rep else [x]) s)"

text \<open>
  \<open>s.split(c)\<close> for a separator \<open>c\<close> of one character: the pieces between the
  separators, in order; the empty string splits into one empty piece.
\<close>

fun split :: "'a \<Rightarrow> 'a list \<Rightarrow> 'a list list" where
  "split c [] = [[]]"
| "split c (x # xs) =
     (if x = c then [] # split c xs
      else (case split c xs of [] \<Rightarrow> [[x]] | p # ps \<Rightarrow> (x # p) # ps))"

text \<open>
  \<open>s.trim()\<close> removes white space and line terminators from both ends. Of the code
  units ECMAScript lists, those below 256 are tab, line feed, vertical tab, form feed,
  carriage return, space and the no-break space.
\<close>

definition isWhiteSpace :: "char \<Rightarrow> bool" where
  "isWhiteSpace c = (c \<in> set [CHR 0x09, CHR 0x0A, CHR 0x0B, CHR 0x0C, CHR 0x0D, CHR 0x20, CHR 0xA0])"

definition trim :: "string \<Rightarrow> string" where
  "trim s = rev (dropWhile isWhiteSpace (rev (dropWhile isWhiteSpace s)))"

section \<open>The kubesec gate: selector normalisation (kubesec.js)\<close>

definition kubesecSelectorInvalidCharcters :: "string list" where
  "kubesecSelectorInvalidCharcters = [''|'', ''=='', ''-'']"

text \<open>
  \<open>removeInvalidCharctersInSentence\<close>: for each token in turn, the sentence is cut at the
  token's first position in the sentence as it is then.
\<close>

definition removeInvalidCharctersInSentence :: "string \<Rightarrow> string list \<Rightarrow> string" where
  "removeInvalidCharctersInSentence searchSentence invalidCharcters =
     foldl (\<lambda>sentence ch.
              let indexOfInvalidCharacter = indexOf sentence ch
              in if indexOfInvalidCharacter \<noteq> - 1
                 then slice 0 indexOfInvalidCharacter sentence
                 else sentence)
           searchSentence invalidCharcters"

text \<open>
  \<open>arrangeKubesecSelectorBeforeSearch(fileToSearchIn, searchSentence)\<close>, in the three
  stages of its body. \<open>selectorTokens\<close> is the value of \<open>searchSentenceSplit\<close> after the
  split: the leading dot dropped, the sentence cut at the invalid tokens, the spaces
  removed. \<open>firstSegment\<close> is element 0 after the test for \<open>containers[]\<close>.
\<close>

definition selectorTokens :: "string \<Rightarrow> string list" where
  "selectorTokens searchSentence =
     (let s1 = (case searchSentence of
                  [] \<Rightarrow> searchSentence
                | c # _ \<Rightarrow> if c = CHR ''.''
                           then slice 1 (int (length searchSentence)) searchSentence
                           else searchSentence);
          s2 = removeInvalidCharctersInSentence s1 kubesecSelectorInvalidCharcters
      in split CHR ''.'' (replaceAll CHR '' '' [] s2))"

definition firstSegment :: "string \<Rightarrow> string" where
  "firstSegment t0 = (if includesStr t0 ''containers[]'' then slice 0 (- 2) (trim t0) else t0)"

text \<open>
  The first argument is not read. Reading element 0 of an empty array gives
  \<open>undefined\<close>, and calling \<open>includes\<close> on it throws a TypeError: that is the \<open>Inl\<close>
  branch.
\<close>

definition arrangeKubesecSelectorBeforeSearch ::
  "string list option \<Rightarrow> string \<Rightarrow> js_error + string list" where
  "arrangeKubesecSelectorBeforeSearch fileToSearchIn searchSentence =
     (case selectorTokens searchSentence of
        [] \<Rightarrow> Inl TypeError
      | t0 # rest \<Rightarrow>
          if includesStr (firstSegment t0) ''metadata''
          then Inr [''metadata'']
          else Inr (firstSegment t0 # rest))"

section \<open>Collaborators: editor effects, the file system, the search\<close>

text \<open>
  What a gate does to the editor is recorded as the list of calls it makes, in order:
  \<open>vscode.window.showInformationMessage\<close>, \<open>vscode.window.showErrorMessage\<close>,
  \<open>highLightTextInFile(lineNumber, columnNumber)\<close>, \<open>jumpSpecifiedLine(lineNumber,
  filePath)\<close>, and each call of \<open>hierarchySearchInFile(document, segments)\<close> with the
  arguments it is given. A value that may be \<open>undefined\<close> is an \<open>option\<close>.
\<close>

datatype effect =
  ShowInformationMessage string
| ShowErrorMessage string
| HierarchySearchInFile "string list option" "string list"
| HighLightTextInFile int int
| JumpSpecifiedLine int string

text \<open>The file system maps a path to the file's text; \<open>None\<close> where \<open>readFileSync\<close> throws.\<close>

type_synonym fileSystem = "string \<Rightarrow> string option"

text \<open>
  The object \<open>hierarchySearchInFile\<close> returns, with the fields its callers read. The
  function itself (module \<open>search\<close>) is a parameter of the callers below; a falsy result is
  \<open>None\<close>.
\<close>

record searchResult =
  requestedLine :: int
  numOfTabs :: int
  fileToSearchIn :: "string list option"

type_synonym searchFn = "string list option \<Rightarrow> string list \<Rightarrow> searchResult option"

text \<open>
  \<open>readFileByLines\<close> of gate-functions.js: the text is trimmed as a whole and then split
  at line feeds; a failed read shows an error message and the function returns
  \<open>undefined\<close>.
\<close>

definition readFileByLines :: "fileSystem \<Rightarrow> string \<Rightarrow> effect list \<times> string list option" where
  "readFileByLines fs pathOfFileToSearchIn =
     (case fs pathOfFileToSearchIn of
        Some document \<Rightarrow> ([], Some (split CHR 0x0A (trim document)))
      | None \<Rightarrow> ([ShowErrorMessage ''There is no such file!''], None))"

text \<open>
  \<open>readFileByLines\<close> of kubesec.js: the same body; its local \<open>displayErrorMessage\<close>
  calls \<open>showInformationMessage\<close>.
\<close>

definition kubesecReadFileByLines :: "fileSystem \<Rightarrow> string \<Rightarrow> effect list \<times> string list option" where
  "kubesecReadFileByLines fs pathOfFileToSearchIn =
     (case fs pathOfFileToSearchIn of
        Some document \<Rightarrow> ([], Some (split CHR 0x0A (trim document)))
      | None \<Rightarrow> ([ShowInformationMessage ''There is no such file!''], None))"

section \<open>The kubesec caller (kubesec.js)\<close>

record textDocument =
  fileName :: string
  uriPath :: string

record kubesecFinding =
  selector :: string

text \<open>
  The body of the callback of \<open>showTextDocumentWithErrorsKubesec\<close> after its
  \<open>await readFileByLines\<close>, for one finding. A TypeError thrown by the normaliser rejects
  the callback's promise: nothing more is done for this finding.
\<close>

definition kubesecResolve ::
  "searchFn \<Rightarrow> string list option \<Rightarrow> textDocument \<Rightarrow> kubesecFinding \<Rightarrow> effect list" where
  "kubesecResolve hierarchySearch documentText textDocument res =
     (let searchSentence = selector res
      in case arrangeKubesecSelectorBeforeSearch documentText searchSentence of
           Inl e \<Rightarrow> []
         | Inr searchSentenceReadyToSearch \<Rightarrow>
             HierarchySearchInFile documentText searchSentenceReadyToSearch #
             (case hierarchySearch documentText searchSentenceReadyToSearch of
                None \<Rightarrow> []
              | Some searchResult \<Rightarrow>
                  if requestedLine searchResult = - 1
                  then [ShowInformationMessage (searchSentence @ '' not found!'')]
                  else [HighLightTextInFile (requestedLine searchResult) (numOfTabs searchResult),
                        JumpSpecifiedLine (requestedLine searchResult) (uriPath textDocument)]))"

text \<open>
  \<open>showTextDocumentWithErrorsKubesec(kubesecResult, textDocument)\<close>. \<open>forEach\<close> starts
  the asynchronous callback of every finding in turn; each runs up to its \<open>await\<close>, that
  is, through the read of the file (the message of a failed read is shown then), and the
  rest of each callback runs afterwards, in the order of the findings. Every callback reads
  the file anew and works on what it read.
\<close>

definition showTextDocumentWithErrorsKubesec ::
  "searchFn \<Rightarrow> fileSystem \<Rightarrow> kubesecFinding list \<Rightarrow> textDocument \<Rightarrow> effect list" where
  "showTextDocumentWithErrorsKubesec hierarchySearch fs kubesecResult textDocument =
     (let reads = map (\<lambda>res. kubesecReadFileByLines fs (fileName textDocument)) kubesecResult
      in concat (map fst reads) @
         concat (map (\<lambda>(res, r). kubesecResolve hierarchySearch (snd r) textDocument res)
                     (zip kubesecResult reads)))"

section \<open>The whispers caller (whispers-gate.ts)\<close>

text \<open>A \<open>GateResult\<close> with its \<open>Location(lineNumber, columnNumber)\<close> and message.\<close>

record gateResult =
  lineNumber :: int
  columnNumber :: int
  message :: string

text \<open>
  The search target of a secret: \<open>[sec.split(' ')[0]]\<close>. \<open>split\<close> never returns an
  empty array (lemma \<open>split_not_Nil\<close> below), so element 0 exists.
\<close>

definition secretSegments :: "string \<Rightarrow> string list" where
  "secretSegments sec = [hd (split CHR '' '' sec)]"

text \<open>
  The loop over the secrets of one file: each secret is searched in \<open>documentText\<close>, which
  is then replaced by the \<open>fileToSearchIn\<close> of the result, and a \<open>GateResult\<close> is pushed.
  Reading a field of a falsy result throws a TypeError, which ends the loop. The function
  returns the calls made, the results pushed and the error thrown, if any.
\<close>

fun scanSecrets ::
  "searchFn \<Rightarrow> string list option \<Rightarrow> string list \<Rightarrow> effect list \<times> gateResult list \<times> js_error option" where
  "scanSecrets hierarchySearch documentText [] = ([], [], None)"
| "scanSecrets hierarchySearch documentText (sec # secs) =
     (case hierarchySearch documentText (secretSegments sec) of
        None \<Rightarrow> ([HierarchySearchInFile documentText (secretSegments sec)], [], Some TypeError)
      | Some searchResults \<Rightarrow>
          (case scanSecrets hierarchySearch (fileToSearchIn searchResults) secs of
             (es, ms, err) \<Rightarrow>
               (HierarchySearchInFile documentText (secretSegments sec) # es,
                \<lparr>lineNumber = requestedLine searchResults, columnNumber = 0, message = sec\<rparr> # ms,
                err)))"

text \<open>
  The callback of \<open>scanData\<close> for one file of the scanner's answer: nothing is done for a
  file without secrets; otherwise the file is read once, and the loop runs on what was
  read.
\<close>

definition scanFileSecrets ::
  "searchFn \<Rightarrow> fileSystem \<Rightarrow> string \<Rightarrow> string list \<Rightarrow> effect list \<times> gateResult list \<times> js_error option" where
  "scanFileSecrets hierarchySearch fs filePath secrets =
     (if secrets = [] then ([], [], None)
      else case readFileByLines fs filePath of
        (readEffects, documentText) \<Rightarrow>
          (case scanSecrets hierarchySearch documentText secrets of
             (es, ms, err) \<Rightarrow> (readEffects @ es, ms, err)))"

section \<open>The hierarchy locator (module search)\<close>

text \<open>
  The gates import \<open>hierarchySearchInFile\<close> from the module \<open>search\<close>, whose source is
  not among the files of the repository at hand. The definitions of this section follow
  section 4.2 of the specification (HierarchyLocator) step by step; the result record is
  the one the callers read (\<open>requestedLine\<close>, \<open>numOfTabs\<close> for the depth,
  \<open>fileToSearchIn\<close> for the remaining document).
\<close>

text \<open>
  Modelled from the spec: a line without its indentation (step 3, "de-indented"), for the
  missing module \<open>search\<close>: the leading spaces and tabs are dropped.
\<close>

definition deindent :: "string \<Rightarrow> string" where
  "deindent l = dropWhile (\<lambda>c. c = CHR '' '' \<or> c = CHR 0x09) l"

text \<open>
  Modelled from the spec: the key a line declares (step 3, "its de-indented textual key",
  "the line's declared key token"), for the missing module \<open>search\<close>: the de-indented line,
  without the marker of a list item, up to the colon. The list marker is skipped because
  the specification's scenario matches the segment \<open>securityContext\<close> on the line
  \<open>- securityContext:\<close>.
\<close>

definition lineKey :: "string \<Rightarrow> string" where
  "lineKey l =
     (let t = deindent l;
          u = (if prefix ''- '' t then deindent (drop 2 t) else t)
      in takeWhile (\<lambda>c. c \<noteq> CHR '':'') u)"

text \<open>
  Modelled from the spec: when a line matches a segment, for the missing module
  \<open>search\<close>. The specification gives two accounts. Step 3: the line's key equals the
  segment's name (\<open>keyMatch\<close>). The edge cases of section 4.2 and the literal fragments of
  the secrets scanner (section 4.1, dialect b), whose token is a value and not a key: the
  line contains the segment (\<open>containsMatch\<close>). The locator below takes the match as a
  parameter, so that what is proved of it holds for both.
\<close>

definition keyMatch :: "string \<Rightarrow> string \<Rightarrow> bool" where
  "keyMatch l seg = (lineKey l = seg)"


text \<open>
  Modelled from the spec: the width of a line's indentation (step 2, "count of leading
  indentation units"), for the missing module \<open>search\<close>: the number of leading spaces and
  tabs.
\<close>

definition indentWidth :: "string \<Rightarrow> nat" where
  "indentWidth l = length (takeWhile (\<lambda>c. c = CHR '' '' \<or> c = CHR 0x09) l)"

text \<open>
  Modelled from the spec: the depth of every line of a document (step 2 and the data
  model: "nesting depth, counted in structural units, not raw character counts"), for the
  missing module \<open>search\<close>. \<open>enclosing\<close> holds the widths of the lines that enclose the
  current one, the innermost first. A line closes the enclosing lines that are not
  indented less than it is, and its depth is the number of those that remain; lines
  indented alike are siblings of equal depth, and a document without indentation has
  depth 0 throughout. A line that is empty but for blanks encloses nothing. On the
  specification's scenario (indentation widths 0, 2, 4, 8) the depths are 0, 1, 2, 3.
\<close>

fun nestingDepths :: "nat list \<Rightarrow> string list \<Rightarrow> nat list" where
  "nestingDepths enclosing [] = []"
| "nestingDepths enclosing (l # ls) =
     (if deindent l = [] then length enclosing # nestingDepths enclosing ls
      else (let outer = dropWhile (\<lambda>w. indentWidth l \<le> w) enclosing
            in length outer # nestingDepths (indentWidth l # outer) ls))"

text \<open>
  Modelled from the spec: the scan of the missing function \<open>hierarchySearchInFile\<close>
  (steps 1 and 3 to 6). \<open>locate matches bound segments ls i\<close> walks the lines \<open>ls\<close>, each
  with its depth, the first of which has index \<open>i\<close> in the document, for the first line
  that matches the current segment. \<open>bound\<close> is the depth of the line matched for the
  previous segment: the region of its children ends at the first line whose depth is not
  greater. A match of the last segment gives the line's index and depth; a match of
  another segment moves on to the next segment among the lines below. An exhausted
  region, and an empty segment sequence, give \<open>None\<close>.
\<close>

fun locate ::
  "(string \<Rightarrow> string \<Rightarrow> bool) \<Rightarrow> nat option \<Rightarrow> string list \<Rightarrow> (string \<times> nat) list \<Rightarrow> nat
     \<Rightarrow> (nat \<times> nat) option" where
  "locate matches bound [] ls i = None"
| "locate matches bound (seg # rest) [] i = None"
| "locate matches bound (seg # rest) ((l, d) # ls) i =
     (if (case bound of None \<Rightarrow> False | Some b \<Rightarrow> d \<le> b) then None
      else if matches l seg then
        (if rest = [] then Some (i, d)
         else locate matches (Some d) rest ls (Suc i))
      else locate matches bound (seg # rest) ls (Suc i))"

text \<open>
  Modelled from the spec: the remaining document after a match at line \<open>i\<close> (step 7, "the
  matched line and, by convention, everything up to and including it is removed"), for
  the missing module \<open>search\<close>. The text of the lines up to \<open>i\<close> is removed and the lines
  after it keep their places: the callers hand the remaining document back as the
  document of the next search and use the line that search returns as a line of the file
  (whispers-gate.ts, line 61), and the specification gives \<open>requestedLine\<close> as the absolute
  index in the original document (section 3, step 4, and the duplicates property of
  section 8).
\<close>

definition consumeThrough :: "nat \<Rightarrow> string list \<Rightarrow> string list" where
  "consumeThrough i document = replicate (Suc i) [] @ drop (Suc i) document"

text \<open>
  Modelled from the spec: the missing function \<open>hierarchySearchInFile\<close> and its result
  (steps 4, 5 and 7). Not found is the line \<open>-1\<close>, with the document unchanged; a match
  returns the index of the line, its depth, and the remaining document.
\<close>

definition hierarchySearchInFile ::
  "(string \<Rightarrow> string \<Rightarrow> bool) \<Rightarrow> string list \<Rightarrow> string list \<Rightarrow> searchResult" where
  "hierarchySearchInFile matches document segments =
     (case locate matches None segments (zip document (nestingDepths [] document)) 0 of
        None \<Rightarrow> \<lparr>requestedLine = - 1, numOfTabs = 0, fileToSearchIn = Some document\<rparr>
      | Some (i, d) \<Rightarrow>
          \<lparr>requestedLine = int i, numOfTabs = int d,
           fileToSearchIn = Some (consumeThrough i document)\<rparr>)"


section \<open>What the specification says, for comparison\<close>


text \<open>
  The first whitespace-delimited token of a fragment, in the specification's words: white
  space of any kind delimits, and leading white space precedes the first token.
\<close>

definition firstWhitespaceToken :: "string \<Rightarrow> string" where
  "firstWhitespaceToken s = takeWhile (\<lambda>c. \<not> isWhiteSpace c) (dropWhile isWhiteSpace s)"

text \<open>
  The Document of the specification's data model: the content split on newlines, "trimmed
  of a single trailing empty line".
\<close>

definition documentOfSpec :: "string \<Rightarrow> string list" where
  "documentOfSpec content =
     (let ls = split CHR 0x0A content in if last ls = [] then butlast ls else ls)"

text \<open>\<open>lines.join(c)\<close>, the inverse of \<open>split\<close>.\<close>

fun join :: "'a \<Rightarrow> 'a list list \<Rightarrow> 'a list" where
  "join c [] = []"
| "join c [p] = p"
| "join c (p # q # ps) = p @ c # join c (q # ps)"

text \<open>
  The searches a gate has run, read off its calls, and what it means that they are
  threaded: every search after the first is given the \<open>fileToSearchIn\<close> that the search
  before it returned.
\<close>

fun searchCalls :: "effect list \<Rightarrow> (string list option \<times> string list) list" where
  "searchCalls [] = []"
| "searchCalls (HierarchySearchInFile d segs # es) = (d, segs) # searchCalls es"
| "searchCalls (e # es) = searchCalls es"

fun threaded :: "searchFn \<Rightarrow> (string list option \<times> string list) list \<Rightarrow> bool" where
  "threaded hierarchySearch [] = True"
| "threaded hierarchySearch [c] = True"
| "threaded hierarchySearch ((d, segs) # (d', segs') # cs) =
     ((case hierarchySearch d segs of None \<Rightarrow> False | Some r \<Rightarrow> d' = fileToSearchIn r)
      \<and> threaded hierarchySearch ((d', segs') # cs))"

section \<open>Properties of the primitives\<close>

lemma split_not_Nil: "split c s \<noteq> []"
  by (induction s) (auto split: list.splits)

lemma arrange_returns:
  "\<exists>segs. arrangeKubesecSelectorBeforeSearch d s = Inr segs \<and> segs \<noteq> []"
  using split_not_Nil [of "CHR ''.''"]
  by (auto simp: arrangeKubesecSelectorBeforeSearch_def selectorTokens_def Let_def
           split: list.splits)

lemma indexOfNat_absent: "pat \<noteq> [] \<Longrightarrow> hd pat \<notin> set s \<Longrightarrow> indexOfNat s pat = None"
  by (induction s) (auto simp: prefix_def Cons_eq_append_conv)

lemma indexOf_absent: "pat \<noteq> [] \<Longrightarrow> hd pat \<notin> set s \<Longrightarrow> indexOf s pat = - 1"
  by (simp add: indexOf_def indexOfNat_absent)

lemma replaceAll_only: "set s \<subseteq> {c} \<Longrightarrow> replaceAll c [] s = []"
  by (induction s) (auto simp: replaceAll_def)

lemma removeInvalid_spaces:
  assumes "set s \<subseteq> {CHR '' ''}"
  shows "removeInvalidCharctersInSentence s kubesecSelectorInvalidCharcters = s"
proof -
  have bar: "indexOf s ''|'' = - 1" using assms by (intro indexOf_absent) auto
  have eqs: "indexOf s ''=='' = - 1" using assms by (intro indexOf_absent) auto
  have dash: "indexOf s ''-'' = - 1" using assms by (intro indexOf_absent) auto
  show ?thesis
    by (simp add: removeInvalidCharctersInSentence_def kubesecSelectorInvalidCharcters_def
          bar eqs dash)
qed

lemma selectorTokens_spaces: "set s \<subseteq> {CHR '' ''} \<Longrightarrow> selectorTokens s = [[]]"
  by (cases s) (auto simp: selectorTokens_def removeInvalid_spaces replaceAll_only Let_def)

lemmas arrange_unfold =
  arrangeKubesecSelectorBeforeSearch_def selectorTokens_def firstSegment_def
  removeInvalidCharctersInSentence_def kubesecSelectorInvalidCharcters_def indexOf_def
  includesStr_def slice_def sliceIndex_def replaceAll_def trim_def isWhiteSpace_def

lemma hd_split: "hd (split c s) = takeWhile (\<lambda>x. x \<noteq> c) s"
  using split_not_Nil [of c] by (induction s) (auto split: list.splits)

lemma join_split: "join c (split c s) = s"
proof (induction s)
  case Nil
  then show ?case by simp
next
  case (Cons x xs)
  obtain p ps where sp: "split c xs = p # ps"
    using split_not_Nil [of c xs] by (cases "split c xs") auto
  show ?case using Cons sp by (cases ps) auto
qed


lemma indexOfNat_least:
  "indexOfNat s pat = Some i \<Longrightarrow> j < i \<Longrightarrow> \<not> prefix pat (drop j s)"
proof (induction s arbitrary: i j)
  case Nil
  then show ?case by (simp split: if_splits)
next
  case (Cons x xs)
  then show ?case by (cases j) (auto split: if_splits)
qed

lemma indexOfNat_None:
  "indexOfNat s pat = None \<Longrightarrow> \<not> prefix pat (drop j s)"
proof (induction s arbitrary: j)
  case Nil
  then show ?case by (simp split: if_splits)
next
  case (Cons x xs)
  then show ?case by (cases j) (auto split: if_splits)
qed






section \<open>Properties of the callers\<close>

lemma searchCalls_append: "searchCalls (a @ b) = searchCalls a @ searchCalls b"
  by (induction a rule: searchCalls.induct) auto

lemma scanSecrets_calls:
  "searchCalls (fst (scanSecrets hs doc (sec # rest))) =
     (doc, secretSegments sec) #
     (case hs doc (secretSegments sec) of
        None \<Rightarrow> []
      | Some r \<Rightarrow> searchCalls (fst (scanSecrets hs (fileToSearchIn r) rest)))"
  by (auto split: option.splits prod.splits)

lemma scanSecrets_threaded: "threaded hs (searchCalls (fst (scanSecrets hs doc secs)))"
proof (induction secs arbitrary: doc)
  case Nil
  then show ?case by simp
next
  case (Cons sec rest)
  show ?case
  proof (cases "hs doc (secretSegments sec)")
    case None
    then show ?thesis by (simp add: scanSecrets_calls del: scanSecrets.simps)
  next
    case (Some r)
    show ?thesis
    proof (cases rest)
      case Nil
      then show ?thesis
        using Some by (simp add: scanSecrets_calls del: scanSecrets.simps(2))
    next
      case (Cons sec' rest')
      have "threaded hs (searchCalls (fst (scanSecrets hs (fileToSearchIn r) (sec' # rest'))))"
        using Cons.IH [of "fileToSearchIn r"] Cons by simp
      then show ?thesis
        using Some Cons by (simp add: scanSecrets_calls del: scanSecrets.simps)
    qed
  qed
qed

lemma scanFileSecrets_calls:
  "searchCalls (fst (scanFileSecrets hs fs p secs)) =
   searchCalls (fst (scanSecrets hs (snd (readFileByLines fs p)) secs))"
  by (auto simp: scanFileSecrets_def readFileByLines_def searchCalls_append
           split: prod.splits option.splits)

lemma zip_const: "zip xs (map (\<lambda>x. r) xs) = map (\<lambda>x. (x, r)) xs"
  by (induction xs) auto

text \<open>
  The calls of \<open>showTextDocumentWithErrorsKubesec\<close>: the messages of the reads, then one
  block per finding, each on the document as read.
\<close>

lemma showTextDocument_blocks:
  "showTextDocumentWithErrorsKubesec hs fs results td =
     concat (replicate (length results) (fst (kubesecReadFileByLines fs (fileName td)))) @
     concat (map (kubesecResolve hs (snd (kubesecReadFileByLines fs (fileName td))) td) results)"
  unfolding showTextDocumentWithErrorsKubesec_def Let_def zip_const
  by (simp add: map_replicate_const comp_def)

lemma kubesecRead_no_calls:
  "searchCalls (concat (replicate n (fst (kubesecReadFileByLines fs p)))) = []"
  by (induction n)
     (auto simp: kubesecReadFileByLines_def searchCalls_append split: option.splits)

lemma kubesecResolve_calls: "map fst (searchCalls (kubesecResolve hs doc td res)) = [doc]"
  using arrange_returns [of doc "selector res"]
  by (auto simp: kubesecResolve_def split: option.splits)

lemma kubesec_blocks_calls:
  "map fst (searchCalls (concat (map (kubesecResolve hs doc td) results)))
     = replicate (length results) doc"
  by (induction results) (auto simp: searchCalls_append kubesecResolve_calls)

section \<open>Properties of the locator\<close>






text \<open>
  The specification's scenarios of section 8 on the locator: the four-segment path is
  found at line 3 with depth 3, and the path \<open>spec\<close>, \<open>volumes\<close> is not found.
\<close>

lemma locator_scenarios:
  "hierarchySearchInFile keyMatch
     [''spec:'', ''  containers:'', ''    - securityContext:'', ''        runAsUser: 20000'']
     [''spec'', ''containers'', ''securityContext'', ''runAsUser'']
   = \<lparr>requestedLine = 3, numOfTabs = 3,
      fileToSearchIn = Some [[], [], [], []]\<rparr>
   \<and> requestedLine (hierarchySearchInFile keyMatch
     [''spec:'', ''  containers:'', ''    - securityContext:'', ''        runAsUser: 20000'']
     [''spec'', ''volumes'']) = - 1"
  by code_simp

section \<open>The selector normaliser\<close>

text \<open>
  Claim C1, as the code has it. The selector
  \<open>.spec .containers[] .securityContext .runAsUser -gt 10000\<close> normalises to the four
  segments \<open>spec\<close>, \<open>containers[]\<close>, \<open>securityContext\<close>, \<open>runAsUser\<close>: the clause
  \<open>-gt 10000\<close> is cut off, and the array marker stays, because the code strips it from
  element 0 only. Where \<open>containers[]\<close> is the first token, as in kubesec's selector
  \<open>containers[] .securityContext .runAsUser -gt 10000\<close>, the marker is stripped.
\<close>

theorem arrange_spec_containers:
  "arrangeKubesecSelectorBeforeSearch d
     ''.spec .containers[] .securityContext .runAsUser -gt 10000''
   = Inr [''spec'', ''containers[]'', ''securityContext'', ''runAsUser'']
   \<and> arrangeKubesecSelectorBeforeSearch d
     ''containers[] .securityContext .runAsUser -gt 10000''
   = Inr [''containers'', ''securityContext'', ''runAsUser'']"
  by (simp add: arrange_unfold)

text \<open>
  Claim C1 as stated fails: the result is not \<open>spec\<close>, \<open>containers\<close>,
  \<open>securityContext\<close>, \<open>runAsUser\<close>.
\<close>

theorem arrange_spec_containers_counterexample:
  "arrangeKubesecSelectorBeforeSearch None
     ''.spec .containers[] .securityContext .runAsUser -gt 10000''
   \<noteq> Inr [''spec'', ''containers'', ''securityContext'', ''runAsUser'']"
  by (simp add: arrange_unfold)

text \<open>
  Claim C3, as the code has it. A selector made of space characters only (the empty
  selector among them) normalises to one segment, the empty string; a tab is not removed
  and stays as the segment. For every string the normaliser returns a sequence of
  segments, never an empty one, and never throws.
\<close>

theorem arrange_blank_selector:
  "(set s \<subseteq> {CHR '' ''} \<longrightarrow> arrangeKubesecSelectorBeforeSearch d s = Inr [[]])
   \<and> arrangeKubesecSelectorBeforeSearch d [CHR 0x09] = Inr [[CHR 0x09]]
   \<and> (\<exists>segs. arrangeKubesecSelectorBeforeSearch d t = Inr segs \<and> segs \<noteq> [])"
proof (intro conjI impI)
  assume "set s \<subseteq> {CHR '' ''}"
  then have "selectorTokens s = [[]]" by (rule selectorTokens_spaces)
  then show "arrangeKubesecSelectorBeforeSearch d s = Inr [[]]"
    by (simp add: arrangeKubesecSelectorBeforeSearch_def firstSegment_def includesStr_def
          indexOf_def)
next
  show "arrangeKubesecSelectorBeforeSearch d [CHR 0x09] = Inr [[CHR 0x09]]"
    by (simp add: arrange_unfold)
next
  show "\<exists>segs. arrangeKubesecSelectorBeforeSearch d t = Inr segs \<and> segs \<noteq> []"
    by (rule arrange_returns)
qed

theorem arrange_blank_selector_witness:
  "set ''   '' \<subseteq> {CHR '' ''} \<and> arrangeKubesecSelectorBeforeSearch None ''   '' = Inr [[]]"
  using arrange_blank_selector [of "''   ''" None "[]"] by simp

text \<open>
  Claim C3 as stated fails: the empty selector does not normalise to the empty
  sequence.
\<close>

theorem arrange_blank_selector_counterexample:
  "arrangeKubesecSelectorBeforeSearch None [] \<noteq> Inr []"
  by (simp add: arrange_unfold)





section \<open>Reading a file\<close>

text \<open>
  Claim C8, as the code has it. For a file that can be read, \<open>readFileByLines\<close> (in
  gate-functions.js and in kubesec.js) returns the content trimmed as a whole and then
  split at line feeds: all white space at the start and at the end of the content is
  removed, blank lines and the first line's indentation among it, and nothing else is,
  since joining the lines gives the trimmed content back.
\<close>

theorem readFileByLines_trims_content:
  "fs p = Some content \<longrightarrow>
     readFileByLines fs p = ([], Some (split CHR 0x0A (trim content)))
     \<and> kubesecReadFileByLines fs p = ([], Some (split CHR 0x0A (trim content)))
     \<and> join CHR 0x0A (split CHR 0x0A (trim content)) = trim content"
  by (simp add: readFileByLines_def kubesecReadFileByLines_def join_split)

theorem readFileByLines_trims_content_witness:
  "readFileByLines (\<lambda>p. Some ([CHR 0x0A] @ ''a:'' @ [CHR 0x0A] @ ''  b: 1 '' @ [CHR 0x0A]))
     ''f.yaml'' = ([], Some [''a:'', ''  b: 1''])"
  using readFileByLines_trims_content
          [of "\<lambda>p. Some ([CHR 0x0A] @ ''a:'' @ [CHR 0x0A] @ ''  b: 1 '' @ [CHR 0x0A])"
              "''f.yaml''" "[CHR 0x0A] @ ''a:'' @ [CHR 0x0A] @ ''  b: 1 '' @ [CHR 0x0A]"]
  by (simp add: trim_def isWhiteSpace_def)

text \<open>
  Claim C8 as stated fails: for a content that starts with a blank line, the lines
  returned are not the content split on newlines less one trailing empty line (the blank
  line is gone, and with it the line numbers have moved).
\<close>

theorem readFileByLines_trims_content_counterexample:
  "snd (readFileByLines (\<lambda>p. Some ([CHR 0x0A] @ ''a:'' @ [CHR 0x0A] @ ''  b: 1 '' @ [CHR 0x0A]))
          ''f.yaml'')
   \<noteq> Some (documentOfSpec ([CHR 0x0A] @ ''a:'' @ [CHR 0x0A] @ ''  b: 1 '' @ [CHR 0x0A]))"
  by (simp add: readFileByLines_def documentOfSpec_def trim_def isWhiteSpace_def)

text \<open>
  Claim C10. When the read of the file fails, \<open>readFileByLines\<close> shows the error
  message "There is no such file!" and returns \<open>undefined\<close>, not a list of lines; in
  \<open>scanData\<close> the first search is then called with \<open>undefined\<close> as its document, and
  so is every search of \<open>showTextDocumentWithErrorsKubesec\<close>.
\<close>

theorem readFileByLines_failure:
  "fs p = None \<longrightarrow>
     readFileByLines fs p = ([ShowErrorMessage ''There is no such file!''], None)
     \<and> (\<exists>rest. fst (scanFileSecrets hs fs p (sec # secs)) =
           ShowErrorMessage ''There is no such file!'' #
           HierarchySearchInFile None (secretSegments sec) # rest)
     \<and> (fileName td = p \<longrightarrow>
          map fst (searchCalls (showTextDocumentWithErrorsKubesec hs fs results td))
            = replicate (length results) None)"
proof (intro impI conjI)
  assume miss: "fs p = None"
  show "readFileByLines fs p = ([ShowErrorMessage ''There is no such file!''], None)"
    using miss by (simp add: readFileByLines_def)
  show "\<exists>rest. fst (scanFileSecrets hs fs p (sec # secs)) =
           ShowErrorMessage ''There is no such file!'' #
           HierarchySearchInFile None (secretSegments sec) # rest"
    using miss
    by (auto simp: readFileByLines_def scanFileSecrets_def split: option.splits prod.splits)
  assume "fileName td = p"
  then have "snd (kubesecReadFileByLines fs (fileName td)) = None"
    using miss by (simp add: kubesecReadFileByLines_def)
  then show "map fst (searchCalls (showTextDocumentWithErrorsKubesec hs fs results td))
               = replicate (length results) None"
    by (simp add: showTextDocument_blocks searchCalls_append kubesecRead_no_calls
          kubesec_blocks_calls)
qed

theorem readFileByLines_failure_witness:
  "readFileByLines (\<lambda>p. None) ''missing.yaml''
     = ([ShowErrorMessage ''There is no such file!''], None)
   \<and> (\<exists>rest. fst (scanFileSecrets (\<lambda>d segs. None) (\<lambda>p. None) ''missing.yaml''
                     [''AKIAEXAMPLE123 aws_access_key_id'']) =
           ShowErrorMessage ''There is no such file!'' #
           HierarchySearchInFile None [''AKIAEXAMPLE123''] # rest)
   \<and> map fst (searchCalls (showTextDocumentWithErrorsKubesec (\<lambda>d segs. None) (\<lambda>p. None)
                 [\<lparr>selector = ''.spec .hostNetwork''\<rparr>]
                 \<lparr>fileName = ''missing.yaml'', uriPath = ''/missing.yaml''\<rparr>))
       = [None]"
  using readFileByLines_failure
          [where fs = "\<lambda>p. None" and p = "''missing.yaml''" and hs = "\<lambda>d segs. None"
             and sec = "''AKIAEXAMPLE123 aws_access_key_id''" and secs = "[]"
             and td = "\<lparr>fileName = ''missing.yaml'', uriPath = ''/missing.yaml''\<rparr>"
             and results = "[\<lparr>selector = ''.spec .hostNetwork''\<rparr>]"]
  by (simp add: secretSegments_def hd_split)

section \<open>The secrets scanner's fragments\<close>

text \<open>
  Claim C7, as the code has it. The search target of a secret fragment is one segment,
  the fragment's text before its first space character (the whole fragment when it has
  none, the empty string when it starts with one); no other white space delimits. This
  is the first whitespace-delimited token whenever the fragment has no white space but
  spaces and does not start with one. The fragment \<open>AKIAEXAMPLE123 aws_access_key_id\<close>
  gives the segment \<open>AKIAEXAMPLE123\<close>.
\<close>

theorem secretSegments_first_space_token:
  "secretSegments sec = [takeWhile (\<lambda>c. c \<noteq> CHR '' '') sec]
   \<and> ((\<forall>c \<in> set sec. isWhiteSpace c \<longrightarrow> c = CHR '' '') \<and> take 1 sec \<noteq> '' '' \<longrightarrow>
        secretSegments sec = [firstWhitespaceToken sec])
   \<and> secretSegments ''AKIAEXAMPLE123 aws_access_key_id'' = [''AKIAEXAMPLE123'']"
proof (intro conjI impI)
  show "secretSegments sec = [takeWhile (\<lambda>c. c \<noteq> CHR '' '') sec]"
    by (simp add: secretSegments_def hd_split)
next
  assume h: "(\<forall>c \<in> set sec. isWhiteSpace c \<longrightarrow> c = CHR '' '') \<and> take 1 sec \<noteq> '' ''"
  have sp: "isWhiteSpace CHR '' ''" by (simp add: isWhiteSpace_def)
  have only: "\<And>c. c \<in> set sec \<Longrightarrow> isWhiteSpace c \<longleftrightarrow> c = CHR '' ''"
    using h sp by auto
  have lead: "dropWhile isWhiteSpace sec = sec"
  proof (cases sec)
    case Nil
    then show ?thesis by simp
  next
    case (Cons a as)
    then have "a \<noteq> CHR '' ''" using h by auto
    then have "\<not> isWhiteSpace a" using only [of a] Cons by simp
    then show ?thesis using Cons by simp
  qed
  have "takeWhile (\<lambda>c. \<not> isWhiteSpace c) sec = takeWhile (\<lambda>c. c \<noteq> CHR '' '') sec"
    using only by (intro takeWhile_cong) auto
  then show "secretSegments sec = [firstWhitespaceToken sec]"
    by (simp add: secretSegments_def hd_split firstWhitespaceToken_def lead)
next
  show "secretSegments ''AKIAEXAMPLE123 aws_access_key_id'' = [''AKIAEXAMPLE123'']"
    by (simp add: secretSegments_def hd_split)
qed

theorem secretSegments_first_space_token_witness:
  "secretSegments ''AKIA1 key_id'' = [firstWhitespaceToken ''AKIA1 key_id'']
   \<and> firstWhitespaceToken ''AKIA1 key_id'' = ''AKIA1''"
proof -
  have h: "(\<forall>c \<in> set ''AKIA1 key_id''. isWhiteSpace c \<longrightarrow> c = CHR '' '')
           \<and> take 1 ''AKIA1 key_id'' \<noteq> '' ''"
    by code_simp
  have "(\<forall>c \<in> set ''AKIA1 key_id''. isWhiteSpace c \<longrightarrow> c = CHR '' '')
           \<and> take 1 ''AKIA1 key_id'' \<noteq> '' '' \<longrightarrow>
        secretSegments ''AKIA1 key_id'' = [firstWhitespaceToken ''AKIA1 key_id'']"
    using secretSegments_first_space_token [of "''AKIA1 key_id''"] by (elim conjE)
  then have seg: "secretSegments ''AKIA1 key_id'' = [firstWhitespaceToken ''AKIA1 key_id'']"
    using h by (rule mp)
  have tok: "firstWhitespaceToken ''AKIA1 key_id'' = ''AKIA1''"
    by code_simp
  show ?thesis using seg tok by (rule conjI)
qed

text \<open>
  Claim C7 as stated fails: in a fragment whose parts are separated by a tab, the segment
  is the whole fragment and not its first whitespace-delimited token.
\<close>

theorem secretSegments_first_space_token_counterexample:
  "secretSegments (''AKIAEXAMPLE123'' @ [CHR 0x09] @ ''aws_access_key_id'')
   \<noteq> [firstWhitespaceToken (''AKIAEXAMPLE123'' @ [CHR 0x09] @ ''aws_access_key_id'')]"
  by (simp add: secretSegments_def hd_split firstWhitespaceToken_def isWhiteSpace_def)

section \<open>The callers\<close>

text \<open>
  Claim C4. The calls of \<open>showTextDocumentWithErrorsKubesec\<close> are the messages of the
  reads followed by one block of calls per finding, in the order of the findings. For a
  finding whose selector normalises to \<open>ready\<close> and whose search returns the result \<open>r\<close>:
  when \<open>requestedLine\<close> is \<open>-1\<close>, the only call of the block after the search is the
  message made of the selector and " not found!", with no highlight and no jump;
  otherwise the calls are \<open>highLightTextInFile(requestedLine, numOfTabs)\<close> and
  \<open>jumpSpecifiedLine(requestedLine, path)\<close>, with no message.
\<close>

theorem kubesecResolve_effects:
  "showTextDocumentWithErrorsKubesec hs fs kubesecResult textDocument =
     concat (replicate (length kubesecResult)
               (fst (kubesecReadFileByLines fs (fileName textDocument)))) @
     concat (map (kubesecResolve hs (snd (kubesecReadFileByLines fs (fileName textDocument)))
                    textDocument) kubesecResult)
   \<and> (arrangeKubesecSelectorBeforeSearch documentText (selector res) = Inr ready \<longrightarrow>
      hs documentText ready = Some r \<longrightarrow>
        (requestedLine r = - 1 \<longrightarrow>
           kubesecResolve hs documentText textDocument res =
             [HierarchySearchInFile documentText ready,
              ShowInformationMessage (selector res @ '' not found!'')])
        \<and> (requestedLine r \<noteq> - 1 \<longrightarrow>
           kubesecResolve hs documentText textDocument res =
             [HierarchySearchInFile documentText ready,
              HighLightTextInFile (requestedLine r) (numOfTabs r),
              JumpSpecifiedLine (requestedLine r) (uriPath textDocument)]))"
  by (simp add: kubesecResolve_def showTextDocument_blocks)

theorem kubesecResolve_effects_witness:
  "kubesecResolve (\<lambda>d segs. Some \<lparr>requestedLine = - 1, numOfTabs = 0, fileToSearchIn = d\<rparr>)
      (Some [''kind: Pod'']) \<lparr>fileName = ''pod.yaml'', uriPath = ''/w/pod.yaml''\<rparr>
      \<lparr>selector = ''.spec .serviceAccountName''\<rparr>
     = [HierarchySearchInFile (Some [''kind: Pod'']) [''spec'', ''serviceAccountName''],
        ShowInformationMessage ''.spec .serviceAccountName not found!'']
   \<and> kubesecResolve (\<lambda>d segs. Some \<lparr>requestedLine = 7, numOfTabs = 2, fileToSearchIn = d\<rparr>)
      (Some [''kind: Pod'']) \<lparr>fileName = ''pod.yaml'', uriPath = ''/w/pod.yaml''\<rparr>
      \<lparr>selector = ''.spec .serviceAccountName''\<rparr>
     = [HierarchySearchInFile (Some [''kind: Pod'']) [''spec'', ''serviceAccountName''],
        HighLightTextInFile 7 2, JumpSpecifiedLine 7 ''/w/pod.yaml'']"
proof -
  have ready:
    "arrangeKubesecSelectorBeforeSearch (Some [''kind: Pod''])
       (selector \<lparr>selector = ''.spec .serviceAccountName''\<rparr>)
     = Inr [''spec'', ''serviceAccountName'']"
    by (simp add: arrange_unfold)
  show ?thesis
    using kubesecResolve_effects
            [where hs = "\<lambda>d segs. Some \<lparr>requestedLine = - 1, numOfTabs = 0, fileToSearchIn = d\<rparr>"
               and documentText = "Some [''kind: Pod'']"
               and res = "\<lparr>selector = ''.spec .serviceAccountName''\<rparr>"
               and ready = "[''spec'', ''serviceAccountName'']"
               and r = "\<lparr>requestedLine = - 1, numOfTabs = 0,
                        fileToSearchIn = Some [''kind: Pod'']\<rparr>"
               and textDocument = "\<lparr>fileName = ''pod.yaml'', uriPath = ''/w/pod.yaml''\<rparr>"]
          kubesecResolve_effects
            [where hs = "\<lambda>d segs. Some \<lparr>requestedLine = 7, numOfTabs = 2, fileToSearchIn = d\<rparr>"
               and documentText = "Some [''kind: Pod'']"
               and res = "\<lparr>selector = ''.spec .serviceAccountName''\<rparr>"
               and ready = "[''spec'', ''serviceAccountName'']"
               and r = "\<lparr>requestedLine = 7, numOfTabs = 2,
                        fileToSearchIn = Some [''kind: Pod'']\<rparr>"
               and textDocument = "\<lparr>fileName = ''pod.yaml'', uriPath = ''/w/pod.yaml''\<rparr>"]
          ready
    by simp
qed

text \<open>
  Claim C9, as the code has it. In \<open>scanData\<close> the searches for the secrets of one file
  are threaded: each search after the first is given the \<open>fileToSearchIn\<close> returned by the
  search before it. In \<open>showTextDocumentWithErrorsKubesec\<close> they are not: every finding's
  search is given the document as read from the file for that finding, whatever the
  searches before it returned. Both hold for every search function.
\<close>

theorem callers_threading:
  "threaded hs (searchCalls (fst (scanFileSecrets hs fs p secs)))
   \<and> map fst (searchCalls (showTextDocumentWithErrorsKubesec hs fs results td))
       = replicate (length results) (snd (kubesecReadFileByLines fs (fileName td)))"
  by (simp add: scanFileSecrets_calls scanSecrets_threaded showTextDocument_blocks
        searchCalls_append kubesecRead_no_calls kubesec_blocks_calls)

text \<open>
  Claim C9 as stated fails for the kubesec caller: with two findings of the same
  selector, and a search that returns the document without its first line as the
  remaining buffer, the second search is not run on what the first one returned.
\<close>

theorem callers_threading_counterexample:
  "\<not> threaded
       (\<lambda>d segs. Some \<lparr>requestedLine = 0, numOfTabs = 0, fileToSearchIn = map_option tl d\<rparr>)
       (searchCalls (showTextDocumentWithErrorsKubesec
          (\<lambda>d segs. Some \<lparr>requestedLine = 0, numOfTabs = 0, fileToSearchIn = map_option tl d\<rparr>)
          (\<lambda>p. Some (''k: 1'' @ [CHR 0x0A] @ ''k: 2''))
          [\<lparr>selector = ''.k''\<rparr>, \<lparr>selector = ''.k''\<rparr>]
          \<lparr>fileName = ''f.yaml'', uriPath = ''/f.yaml''\<rparr>))"
  by code_simp

section \<open>The locator on duplicates\<close>




end
